theory Spec2Isabelle
  imports Complex_Main "HOL-Library.Sublist" "HOL-Library.AList"
begin

section \<open>Python strings\<close>

text \<open>
  A Python \<open>str\<close> is modelled as a \<open>string\<close> (a list of characters). The pipeline only
  compares, searches and lowercases English text, so \<open>str.lower\<close> is modelled on the ASCII
  letters; every other character is left as it is.
\<close>

definition lower_char :: "char \<Rightarrow> char" where
  "lower_char c =
     (case map_of (zip ''ABCDEFGHIJKLMNOPQRSTUVWXYZ'' ''abcdefghijklmnopqrstuvwxyz'') c of
        Some l \<Rightarrow> l
      | None \<Rightarrow> c)"

definition lower :: "string \<Rightarrow> string" where
  "lower s = map lower_char s"

text \<open>\<open>text.startswith(sub)\<close>.\<close>

fun startswith :: "string \<Rightarrow> string \<Rightarrow> bool" where
  "startswith t [] = True"
| "startswith [] (s # ss) = False"
| "startswith (c # cs) (s # ss) = (c = s \<and> startswith cs ss)"

text \<open>\<open>sub in text\<close> on strings: \<open>sub\<close> occurs in \<open>text\<close> as a contiguous run.\<close>

fun str_in :: "string \<Rightarrow> string \<Rightarrow> bool" where
  "str_in sub [] = (sub = [])"
| "str_in sub (c # cs) = (startswith (c # cs) sub \<or> str_in sub cs)"

text \<open>\<open>any(keyword in text for keyword in keywords)\<close>.\<close>

definition any_in :: "string list \<Rightarrow> string \<Rightarrow> bool" where
  "any_in keywords t = list_ex (\<lambda>keyword. str_in keyword t) keywords"

text \<open>\<open>text.find(sub)\<close>: the index of the first occurrence, or -1.\<close>

fun find_from :: "string \<Rightarrow> string \<Rightarrow> int \<Rightarrow> int" where
  "find_from [] sub i = (if sub = [] then i else -1)"
| "find_from (c # cs) sub i = (if startswith (c # cs) sub then i else find_from cs sub (i + 1))"

definition find_sub :: "string \<Rightarrow> string \<Rightarrow> int" where
  "find_sub t sub = find_from t sub 0"

text \<open>
  \<open>text.count(sub)\<close>: the occurrences of \<open>sub\<close> that do not overlap, read from the left
  (\<open>k\<close> characters of the last occurrence are still to be skipped); the empty string is
  counted once at every position.
\<close>

fun count_skip :: "nat \<Rightarrow> string \<Rightarrow> string \<Rightarrow> nat" where
  "count_skip k [] sub = 0"
| "count_skip k (c # cs) sub =
     (if k > 0 then count_skip (k - 1) cs sub
      else if startswith (c # cs) sub then 1 + count_skip (length sub - 1) cs sub
      else count_skip 0 cs sub)"

definition count_sub :: "string \<Rightarrow> string \<Rightarrow> nat" where
  "count_sub t sub = (if sub = [] then length t + 1 else count_skip 0 t sub)"

text \<open>\<open>text[a:b]\<close>: a negative index counts from the end, and both are cut to the text.\<close>

definition slice_index :: "string \<Rightarrow> int \<Rightarrow> nat" where
  "slice_index t i =
     (let n = int (length t); j = (if i < 0 then i + n else i) in nat (max 0 (min n j)))"

definition slice :: "string \<Rightarrow> int \<Rightarrow> int \<Rightarrow> string" where
  "slice t a b = (let i = slice_index t a; j = slice_index t b in take (j - i) (drop i t))"

text \<open>Whitespace (ASCII), \<open>strip()\<close>, \<open>split()\<close> and \<open>sep.join(xs)\<close>.\<close>

definition is_space :: "char \<Rightarrow> bool" where
  "is_space c = (let n = (of_char c :: nat) in (9 \<le> n \<and> n \<le> 13) \<or> (28 \<le> n \<and> n \<le> 32))"

definition strip :: "string \<Rightarrow> string" where
  "strip s = rev (dropWhile is_space (rev (dropWhile is_space s)))"

fun split_acc :: "string \<Rightarrow> string \<Rightarrow> string list" where
  "split_acc w [] = (if w = [] then [] else [w])"
| "split_acc w (c # cs) =
     (if is_space c then (if w = [] then split_acc [] cs else w # split_acc [] cs)
      else split_acc (w @ [c]) cs)"

definition split :: "string \<Rightarrow> string list" where
  "split s = split_acc [] s"

fun join :: "string \<Rightarrow> string list \<Rightarrow> string" where
  "join sep [] = []"
| "join sep [x] = x"
| "join sep (x # y # ys) = x @ sep @ join sep (y # ys)"

text \<open>\<open>xs.index(x)\<close>, for an \<open>x\<close> that is in the list.\<close>

fun index :: "'a list \<Rightarrow> 'a \<Rightarrow> nat option" where
  "index [] x = None"
| "index (y # ys) x = (if x = y then Some 0 else map_option Suc (index ys x))"

section \<open>Job description parser: urgency\<close>

text \<open>\<open>JobDescriptionParser._determine_urgency\<close> (jd_parser.py).\<close>

definition urgent_keywords :: "string list" where
  "urgent_keywords = [''urgent'', ''immediate'', ''asap'', ''immediately'', ''critical'']"

definition high_keywords :: "string list" where
  "high_keywords = [''fast-paced'', ''quickly'', ''soon'', ''rapid'']"

definition determine_urgency :: "string \<Rightarrow> string" where
  "determine_urgency t =
     (let text_lower = lower t in
      if any_in urgent_keywords text_lower then ''high''
      else if any_in high_keywords text_lower then ''medium''
      else ''low'')"

text \<open>
  The urgency rule as the specification words it: four phrases for "high", three for
  "medium", anything else "low".
\<close>

definition spec_urgency :: "string \<Rightarrow> string" where
  "spec_urgency t =
     (if any_in [''urgent'', ''immediate'', ''asap'', ''critical''] (lower t) then ''high''
      else if any_in [''fast-paced'', ''quickly'', ''rapid''] (lower t) then ''medium''
      else ''low'')"

section \<open>Python values\<close>

text \<open>
  Python floats are modelled as real numbers: sums, products, quotients and comparisons are
  exact. \<open>x or d\<close> on an optional number gives \<open>d\<close> for \<open>None\<close> and for zero; on an
  optional list it gives the empty list for \<open>None\<close>. A field of the source that defaults to
  \<open>None\<close> is an \<open>option\<close>.
\<close>

definition or_num :: "'a::zero option \<Rightarrow> 'a \<Rightarrow> 'a" where
  "or_num x d = (case x of None \<Rightarrow> d | Some v \<Rightarrow> if v = 0 then d else v)"

definition or_empty :: "'a list option \<Rightarrow> 'a list" where
  "or_empty xs = (case xs of None \<Rightarrow> [] | Some l \<Rightarrow> l)"

text \<open>Truthiness of an optional string: \<open>None\<close> and the empty string are false.\<close>

definition truthy :: "string option \<Rightarrow> bool" where
  "truthy x = (case x of None \<Rightarrow> False | Some s \<Rightarrow> s \<noteq> [])"

text \<open>\<open>numpy.mean\<close> of a list of numbers.\<close>

definition mean :: "real list \<Rightarrow> real" where
  "mean xs = sum_list xs / real (length xs)"

text \<open>
  \<open>round(x, 1)\<close>: the nearest multiple of one tenth, a tie going to the even one (on
  exact numbers).
\<close>

definition round_half_even :: "real \<Rightarrow> int" where
  "round_half_even y =
     (let f = \<lfloor>y\<rfloor>; d = y - of_int f in
      if d < 1 / 2 then f else if 1 / 2 < d then f + 1 else if even f then f else f + 1)"

definition round1 :: "real \<Rightarrow> real" where
  "round1 x = of_int (round_half_even (x * 10)) / 10"

section \<open>Data model\<close>

text \<open>
  The dataclasses of skill_extractor.py, semantic_matcher.py, resume_parser.py,
  jd_parser.py and scoring_engine.py. A field whose name another dataclass also uses carries
  a prefix of its class.
\<close>

record ExtractedSkill =
  name :: string
  category :: string
  confidence :: real
  skill_context :: string
  aliases :: "string list option"
  proficiency_level :: "string option"

record SkillProfile =
  technical_skills :: "ExtractedSkill list"
  soft_skills :: "ExtractedSkill list"
  domain_expertise :: "ExtractedSkill list"
  tools_platforms :: "ExtractedSkill list"
  certifications :: "string list"
  skill_categories :: "(string \<times> string list) list"
  total_skills_count :: nat
  skill_diversity_score :: real

record SkillMatch =
  skill_name :: string
  resume_skill :: "string option"
  jd_skill :: string
  match_type :: string
  match_confidence :: real
  semantic_similarity :: "real option"

record SemanticMatchResult =
  overall_similarity :: real
  skill_matches :: "SkillMatch list"
  missing_skills :: "string list"
  additional_skills :: "string list"
  category_similarities :: "(string \<times> real) list"
  embedding_similarity :: real
  text_similarity :: real

record ContactInfo =
  contact_name :: "string option"
  email :: "string option"
  phone :: "string option"
  linkedin :: "string option"
  github :: "string option"
  portfolio :: "string option"
  contact_location :: "string option"

record Education =
  degree :: "string option"
  institution :: "string option"
  edu_location :: "string option"
  graduation_year :: "int option"
  gpa :: "real option"
  relevant_courses :: "string list option"
  honors :: "string list option"

record WorkExperience =
  exp_title :: string
  exp_company :: string
  exp_location :: "string option"
  exp_start_date :: "string option"
  exp_end_date :: "string option"
  duration_months :: "int option"
  exp_description :: "string list option"
  exp_technologies :: "string list option"
  achievements :: "string list option"

record Project =
  project_title :: string
  project_description :: string
  project_technologies :: "string list option"
  url :: "string option"
  project_start_date :: "string option"
  project_end_date :: "string option"

record ParsedResume =
  contact_info :: ContactInfo
  resume_summary :: "string option"
  skills :: "string list option"
  education :: "Education list option"
  work_experience :: "WorkExperience list option"
  projects :: "Project list option"
  resume_certifications :: "string list option"
  languages :: "string list option"
  awards :: "string list option"
  total_experience_years :: "real option"
  raw_text :: string
  resume_parsing_confidence :: real

record ParsedJobDescription =
  title :: string
  company :: string
  location :: "string option"
  department :: "string option"
  job_type :: "string option"
  experience_required :: "string option"
  salary_range :: "string option"
  summary :: "string option"
  responsibilities :: "string list option"
  requirements :: "string list option"
  preferred_qualifications :: "string list option"
  required_skills :: "string list option"
  preferred_skills :: "string list option"
  required_experience_years :: "int option"
  education_requirements :: "string list option"
  benefits :: "string list option"
  remote_allowed :: bool
  urgency_level :: string
  raw_content :: string

record ScoringWeights =
  w_hard_skills :: real
  w_soft_skills :: real
  w_experience :: real
  w_education :: real
  w_semantic_match :: real

record DetailedScores =
  hard_skills_score :: real
  soft_skills_score :: real
  experience_score :: real
  education_score :: real
  semantic_match_score :: real
  technical_skills_score :: real
  domain_expertise_score :: real
  tools_platforms_score :: real
  years_experience_score :: real
  experience_relevance_score :: real
  education_level_score :: real
  education_relevance_score :: real
  skills_matched_count :: nat
  skills_required_count :: nat
  skills_missing_count :: nat
  skills_additional_count :: nat
  parsing_confidence :: real
  matching_confidence :: real
  overall_confidence :: real

record FinalScore =
  overall_score :: real
  detailed_scores :: DetailedScores
  suitability :: string
  percentile_rank :: "real option"
  confidence_level :: string

text \<open>The thresholds of \<open>app.config.settings\<close> (defaults 80, 60 and 40).\<close>

record Settings =
  high_threshold :: real
  medium_threshold :: real
  low_threshold :: real

text \<open>The engine's state after \<open>__init__\<close>: its weights and its table of thresholds.\<close>

record AdvancedScoringEngine =
  weights :: ScoringWeights
  high_score :: real
  medium_score :: real
  low_score :: real
  experience_penalty_threshold :: real
  education_boost_threshold :: real

text \<open>
  The \<open>ValueError\<close> of \<open>ScoringWeights.validate\<close> (the specification's InvalidWeights),
  with the total it reports.
\<close>

datatype error = ValueError real

section \<open>Scoring engine: weights\<close>

text \<open>\<open>ScoringWeights()\<close>: the default weights.\<close>

definition default_weights :: ScoringWeights where
  "default_weights =
     \<lparr>w_hard_skills = 0.35, w_soft_skills = 0.15, w_experience = 0.25, w_education = 0.15,
      w_semantic_match = 0.10\<rparr>"

definition weights_total :: "ScoringWeights \<Rightarrow> real" where
  "weights_total w =
     w_hard_skills w + w_soft_skills w + w_experience w + w_education w + w_semantic_match w"

text \<open>\<open>ScoringWeights.validate\<close>: raises when the total is further than 0.01 from 1.\<close>

definition validate :: "ScoringWeights \<Rightarrow> error + unit" where
  "validate w =
     (let total = weights_total w in
      if \<bar>total - 1.0\<bar> > 0.01 then Inl (ValueError total) else Inr ())"

text \<open>
  \<open>AdvancedScoringEngine.__init__\<close>: \<open>weights or ScoringWeights()\<close> (a dataclass instance is
  always true, so only \<open>None\<close> gives the default), then \<open>validate\<close>, then the thresholds.
\<close>

definition init :: "Settings \<Rightarrow> ScoringWeights option \<Rightarrow> error + AdvancedScoringEngine" where
  "init settings ws =
     (let w = (case ws of None \<Rightarrow> default_weights | Some w' \<Rightarrow> w') in
      case validate w of
        Inl e \<Rightarrow> Inl e
      | Inr _ \<Rightarrow>
          Inr \<lparr>weights = w,
               high_score = high_threshold settings,
               medium_score = medium_threshold settings,
               low_score = low_threshold settings,
               experience_penalty_threshold = 0.5,
               education_boost_threshold = 0.8\<rparr>)"

section \<open>Scoring engine: hard skills\<close>

text \<open>\<open>_identify_critical_skills\<close>.\<close>

definition critical_keywords :: "string list" where
  "critical_keywords = [''required'', ''must'', ''essential'', ''mandatory'']"

definition identify_critical_skills :: "string list \<Rightarrow> string list" where
  "identify_critical_skills required =
     filter (\<lambda>skill. any_in critical_keywords (lower skill)) required"

text \<open>\<open>_calculate_hard_skills_score\<close>.\<close>

definition calculate_hard_skills_score ::
  "SkillProfile \<Rightarrow> SemanticMatchResult \<Rightarrow> ParsedJobDescription \<Rightarrow> real" where
  "calculate_hard_skills_score skill_profile semantic_match jd_parsed =
     (if or_empty (required_skills jd_parsed) = [] then 0.5
      else
        let total_required = length (or_empty (required_skills jd_parsed));
            matched_skills =
              length (filter (\<lambda>m. match_confidence m \<ge> 0.7) (skill_matches semantic_match));
            base_score =
              (if total_required > 0 then real matched_skills / real total_required else 0);
            diversity_bonus = skill_diversity_score skill_profile * 0.2;
            high_confidence_matches =
              length (filter (\<lambda>m. match_confidence m \<ge> 0.9) (skill_matches semantic_match));
            confidence_bonus =
              (if total_required > 0
               then (real high_confidence_matches / real total_required) * 0.1 else 0);
            critical_skills = identify_critical_skills (or_empty (required_skills jd_parsed));
            missing_critical =
              length (filter (\<lambda>s. s \<in> set (missing_skills semantic_match)) critical_skills);
            critical_penalty =
              (if critical_skills \<noteq> []
               then (real missing_critical / real (length critical_skills)) * 0.3 else 0);
            final_score = base_score + diversity_bonus + confidence_bonus - critical_penalty
        in max 0 (min 1 final_score))"

text \<open>
  The hard-skills component as the specification words it, from the JD's required skills,
  the match confidences, the missing skills and the profile's diversity.
\<close>

definition spec_is_critical :: "string \<Rightarrow> bool" where
  "spec_is_critical skill =
     (str_in ''required'' (lower skill) \<or> str_in ''must'' (lower skill)
      \<or> str_in ''essential'' (lower skill) \<or> str_in ''mandatory'' (lower skill))"

definition spec_hard_skills ::
  "string list \<Rightarrow> real list \<Rightarrow> string list \<Rightarrow> real \<Rightarrow> real" where
  "spec_hard_skills required confidences missing diversity =
     (if length required = 0 then 0.5
      else
        let n = real (length required);
            base = real (length (filter (\<lambda>c. c \<ge> 0.70) confidences)) / n;
            high = real (length (filter (\<lambda>c. c \<ge> 0.90) confidences));
            critical = filter spec_is_critical required;
            penalty =
              (if length critical = 0 then 0
               else 0.3 * real (length (filter (\<lambda>s. s \<in> set missing) critical))
                      / real (length critical))
        in max 0 (min 1 (base + 0.2 * diversity + 0.1 * high / n - penalty)))"

section \<open>Semantic matcher: overall similarity\<close>

text \<open>
  \<open>SemanticMatcher._calculate_overall_similarity\<close>. The count of required skills is the
  \<open>len\<close> of a list at the only call, so it is a natural number.
\<close>

definition calculate_overall_similarity ::
  "SkillMatch list \<Rightarrow> nat \<Rightarrow> real \<Rightarrow> real \<Rightarrow> real" where
  "calculate_overall_similarity matches total_required_skills embedding_sim text_sim =
     (let skill_component =
            (if total_required_skills > 0 then
               let skill_score = real (length matches) / real total_required_skills;
                   weighted_skill_score =
                     sum_list (map match_confidence matches) / real total_required_skills
               in min ((skill_score + weighted_skill_score) / 2) 1.0
             else 0.0);
          semantic_component = embedding_sim;
          text_component = text_sim;
          overall =
            skill_component * 0.40 + semantic_component * 0.35 + text_component * 0.25
      in min overall 1.0)"

text \<open>The same quantities as the specification words them.\<close>

definition spec_coverage :: "SkillMatch list \<Rightarrow> nat \<Rightarrow> real" where
  "spec_coverage matches n = real (length matches) / real n"

definition spec_weighted_coverage :: "SkillMatch list \<Rightarrow> nat \<Rightarrow> real" where
  "spec_weighted_coverage matches n = (\<Sum>m\<leftarrow>matches. match_confidence m) / real n"

definition spec_skill_component :: "SkillMatch list \<Rightarrow> nat \<Rightarrow> real" where
  "spec_skill_component matches n =
     (if n = 0 then 0
      else min 1 ((spec_coverage matches n + spec_weighted_coverage matches n) / 2))"

section \<open>Scoring engine: suitability\<close>

text \<open>\<open>_determine_suitability\<close>: the verdict from the thresholds, then three adjustments.\<close>

definition determine_suitability ::
  "AdvancedScoringEngine \<Rightarrow> real \<Rightarrow> DetailedScores \<Rightarrow> string" where
  "determine_suitability engine overall ds =
     (let base0 =
            (if overall \<ge> high_score engine then ''High''
             else if overall \<ge> medium_score engine then ''Medium''
             else ''Low'');
          base1 =
            (if skills_missing_count ds > skills_matched_count ds then
               (if base0 = ''High'' then ''Medium''
                else if base0 = ''Medium'' then ''Low'' else base0)
             else base0);
          base2 =
            (if experience_score ds \<ge> 90 \<or> hard_skills_score ds \<ge> 95
                \<or> education_score ds \<ge> 90 then
               (if base1 = ''Low'' \<and> overall \<ge> 50 then ''Medium'' else base1)
             else base1);
          base3 =
            (if overall_confidence ds < 60 then
               (if base2 = ''High'' then ''Medium'' else base2)
             else base2)
      in base3)"

text \<open>
  The verdicts and the three adjustments as the specification words them, each a function
  on the verdict.
\<close>

datatype verdict = High | Medium | Low

definition verdict_name :: "verdict \<Rightarrow> string" where
  "verdict_name v = (case v of High \<Rightarrow> ''High'' | Medium \<Rightarrow> ''Medium'' | Low \<Rightarrow> ''Low'')"

definition spec_threshold_verdict :: "real \<Rightarrow> real \<Rightarrow> real \<Rightarrow> verdict" where
  "spec_threshold_verdict high medium overall =
     (if overall \<ge> high then High else if overall \<ge> medium then Medium else Low)"

definition spec_downgrade :: "DetailedScores \<Rightarrow> verdict \<Rightarrow> verdict" where
  "spec_downgrade ds v =
     (if skills_missing_count ds > skills_matched_count ds
      then (case v of High \<Rightarrow> Medium | Medium \<Rightarrow> Low | Low \<Rightarrow> Low) else v)"

definition spec_upgrade :: "real \<Rightarrow> DetailedScores \<Rightarrow> verdict \<Rightarrow> verdict" where
  "spec_upgrade overall ds v =
     (if experience_score ds \<ge> 90 \<or> hard_skills_score ds \<ge> 95 \<or> education_score ds \<ge> 90
      then (case v of Low \<Rightarrow> (if overall \<ge> 50 then Medium else Low) | _ \<Rightarrow> v) else v)"

definition spec_confidence_cap :: "DetailedScores \<Rightarrow> verdict \<Rightarrow> verdict" where
  "spec_confidence_cap ds v =
     (if overall_confidence ds < 60 then (case v of High \<Rightarrow> Medium | _ \<Rightarrow> v) else v)"

definition spec_suitability :: "real \<Rightarrow> real \<Rightarrow> real \<Rightarrow> DetailedScores \<Rightarrow> verdict" where
  "spec_suitability high medium overall ds =
     spec_confidence_cap ds
       (spec_upgrade overall ds (spec_downgrade ds (spec_threshold_verdict high medium overall)))"

section \<open>Skill extractor\<close>

text \<open>
  \<open>AdvancedSkillExtractor._load_skill_database\<close>: the skill database, category by
  category, each skill with its aliases, in the order of the source.
\<close>

definition skill_database :: "(string \<times> (string \<times> string list) list) list" where
  "skill_database =
    [
     (''programming_languages'',
       [
        (''python'', [''python'', ''py'', ''python3'']),
        (''javascript'', [''javascript'', ''js'', ''ecmascript'', ''es6'', ''es2015'']),
        (''java'', [''java'', ''jvm'']),
        (''typescript'', [''typescript'', ''ts'']),
        (''c++'', [''c++'', ''cpp'', ''c plus plus'']),
        (''c#'', [''c#'', ''csharp'', ''c sharp'']),
        (''php'', [''php'', ''php7'', ''php8'']),
        (''ruby'', [''ruby'', ''rb'']),
        (''go'', [''go'', ''golang'']),
        (''rust'', [''rust'', ''rust-lang'']),
        (''kotlin'', [''kotlin'', ''kt'']),
        (''swift'', [''swift'', ''swift5'']),
        (''scala'', [''scala'']),
        (''r'', [''r programming'', ''r language'']),
        (''matlab'', [''matlab'']),
        (''perl'', [''perl'']),
        (''bash'', [''bash'', ''shell scripting'', ''bash scripting'']),
        (''powershell'', [''powershell'', ''ps1''])]),
     (''web_technologies'',
       [
        (''react'', [''react'', ''reactjs'', ''react.js'']),
        (''angular'', [''angular'', ''angularjs'', ''angular2+'']),
        (''vue'', [''vue'', ''vue.js'', ''vuejs'']),
        (''html'', [''html'', ''html5'']),
        (''css'', [''css'', ''css3'', ''cascading style sheets'']),
        (''sass'', [''sass'', ''scss'']),
        (''less'', [''less css'']),
        (''bootstrap'', [''bootstrap'', ''bootstrap4'', ''bootstrap5'']),
        (''tailwind'', [''tailwind'', ''tailwindcss'']),
        (''jquery'', [''jquery'', ''jquery ui'']),
        (''node.js'', [''node.js'', ''nodejs'', ''node js'']),
        (''express'', [''express'', ''express.js'', ''expressjs'']),
        (''django'', [''django'', ''django rest framework'']),
        (''flask'', [''flask'', ''flask-restful'']),
        (''spring'', [''spring'', ''spring boot'', ''spring framework'']),
        (''laravel'', [''laravel'', ''laravel framework'']),
        (''rails'', [''ruby on rails'', ''rails'', ''ror''])]),
     (''databases'',
       [
        (''mysql'', [''mysql'', ''my sql'']),
        (''postgresql'', [''postgresql'', ''postgres'', ''psql'']),
        (''mongodb'', [''mongodb'', ''mongo'']),
        (''redis'', [''redis'']),
        (''elasticsearch'', [''elasticsearch'', ''elastic search'', ''elk stack'']),
        (''oracle'', [''oracle database'', ''oracle db'']),
        (''sqlite'', [''sqlite'', ''sqlite3'']),
        (''cassandra'', [''cassandra'', ''apache cassandra'']),
        (''dynamodb'', [''dynamodb'', ''dynamo db'']),
        (''neo4j'', [''neo4j'', ''graph database'']),
        (''influxdb'', [''influxdb'', ''time series database''])]),
     (''cloud_platforms'',
       [
        (''aws'', [''aws'', ''amazon web services'', ''ec2'', ''s3'', ''lambda'', ''rds'']),
        (''azure'', [''azure'', ''microsoft azure'']),
        (''gcp'', [''gcp'', ''google cloud platform'', ''google cloud'']),
        (''kubernetes'', [''kubernetes'', ''k8s'']),
        (''docker'', [''docker'', ''containerization'']),
        (''terraform'', [''terraform'', ''infrastructure as code'']),
        (''ansible'', [''ansible'', ''configuration management'']),
        (''jenkins'', [''jenkins'', ''ci/cd'']),
        (''gitlab'', [''gitlab'', ''gitlab ci'']),
        (''circleci'', [''circleci'', ''circle ci''])]),
     (''data_science'',
       [
        (''pandas'', [''pandas'', ''pd'']),
        (''numpy'', [''numpy'', ''np'']),
        (''scikit-learn'', [''scikit-learn'', ''sklearn'', ''sci-kit learn'']),
        (''tensorflow'', [''tensorflow'', ''tf'']),
        (''pytorch'', [''pytorch'', ''torch'']),
        (''keras'', [''keras'']),
        (''matplotlib'', [''matplotlib'', ''pyplot'']),
        (''seaborn'', [''seaborn'', ''sns'']),
        (''plotly'', [''plotly'', ''plotly dash'']),
        (''jupyter'', [''jupyter'', ''jupyter notebook'', ''ipython'']),
        (''apache spark'', [''spark'', ''apache spark'', ''pyspark'']),
        (''hadoop'', [''hadoop'', ''hdfs'']),
        (''tableau'', [''tableau'']),
        (''power bi'', [''power bi'', ''powerbi'']),
        (''r shiny'', [''shiny'', ''r shiny''])]),
     (''mobile_development'',
       [
        (''ios'', [''ios development'', ''ios'', ''iphone development'']),
        (''android'', [''android development'', ''android'']),
        (''react native'', [''react native'', ''react-native'']),
        (''flutter'', [''flutter'', ''dart'']),
        (''xamarin'', [''xamarin'']),
        (''cordova'', [''cordova'', ''phonegap'']),
        (''ionic'', [''ionic framework'', ''ionic''])]),
     (''devops_tools'',
       [
        (''git'', [''git'', ''version control'', ''github'', ''gitlab'']),
        (''svn'', [''svn'', ''subversion'']),
        (''maven'', [''maven'', ''apache maven'']),
        (''gradle'', [''gradle'']),
        (''webpack'', [''webpack'', ''module bundler'']),
        (''npm'', [''npm'', ''node package manager'']),
        (''yarn'', [''yarn package manager'', ''yarn'']),
        (''pip'', [''pip'', ''python package installer''])]),
     (''soft_skills'',
       [
        (''leadership'', [''leadership'', ''team leadership'', ''leading teams'']),
        (''communication'', [''communication'', ''public speaking'', ''presentation'']),
        (''problem solving'', [''problem solving'', ''analytical thinking'', ''troubleshooting'']),
        (''project management'', [''project management'', ''agile'', ''scrum'', ''kanban'']),
        (''teamwork'', [''teamwork'', ''collaboration'', ''cross-functional teams'']),
        (''adaptability'', [''adaptability'', ''flexibility'', ''learning agility'']),
        (''time management'', [''time management'', ''organization'', ''prioritization'']),
        (''creativity'', [''creativity'', ''innovation'', ''creative thinking'']),
        (''critical thinking'', [''critical thinking'', ''analysis'', ''evaluation'']),
        (''mentoring'', [''mentoring'', ''coaching'', ''training others''])])]"

text \<open>
  The reverse lookup. A Python dict keeps its keys in the order of their first insertion,
  and a later assignment to a key replaces its value in place: \<open>AList.update\<close>.
\<close>

definition add_skill ::
  "string \<Rightarrow> string \<times> string list \<Rightarrow> (string \<times> string \<times> string) list
   \<Rightarrow> (string \<times> string \<times> string) list" where
  "add_skill cat entry lookup =
     (case entry of (skill, als) \<Rightarrow>
        fold (\<lambda>alias lk. AList.update (lower alias) (skill, cat) lk) als
          (AList.update (lower skill) (skill, cat) lookup))"

definition load_skill_lookup ::
  "(string \<times> (string \<times> string list) list) list \<Rightarrow> (string \<times> string \<times> string) list" where
  "load_skill_lookup db =
     fold (\<lambda>(cat, skills) lookup. fold (add_skill cat) skills lookup) db []"

definition skill_lookup :: "(string \<times> string \<times> string) list" where
  "skill_lookup = load_skill_lookup skill_database"

text \<open>\<open>_extract_context\<close> with no position given.\<close>

definition extract_context :: "string \<Rightarrow> string \<Rightarrow> string" where
  "extract_context t skill =
     (let position = find_sub (lower t) (lower skill) in
      if position = -1 then []
      else
        let start = max 0 (position - 50);
            end = min (int (length t)) (position + int (length skill) + 50)
        in strip (slice t start end))"

text \<open>\<open>_calculate_dictionary_confidence\<close>. The loop over the sections stops at the first hit.\<close>

definition skill_sections :: "string list" where
  "skill_sections = [''skills'', ''technologies'', ''experience'', ''projects'']"

fun section_boost :: "string list \<Rightarrow> string \<Rightarrow> string \<Rightarrow> real \<Rightarrow> real" where
  "section_boost [] skill_term t base_confidence = base_confidence"
| "section_boost (sec # secs) skill_term t base_confidence =
     (if str_in sec t
         \<and> str_in skill_term (slice t (find_sub t sec) (find_sub t sec + 200))
      then base_confidence + 0.1
      else section_boost secs skill_term t base_confidence)"

definition calculate_dictionary_confidence :: "string \<Rightarrow> string \<Rightarrow> real" where
  "calculate_dictionary_confidence skill_term t =
     (let base_confidence = 0.8;
          count = count_sub t (lower skill_term);
          base_confidence =
            (if count > 1 then base_confidence + min (0.1 * (real count - 1)) 0.2
             else base_confidence);
          base_confidence = section_boost skill_sections skill_term t base_confidence
      in min base_confidence 1.0)"

text \<open>\<open>_extract_skills_dictionary\<close>.\<close>

definition extract_skills_dictionary_from ::
  "(string \<times> string \<times> string) list \<Rightarrow> string \<Rightarrow> ExtractedSkill list" where
  "extract_skills_dictionary_from lookup t =
     (let text_lower = lower t in
      map (\<lambda>(skill_term, canonical_name, cat).
             \<lparr>name = canonical_name, category = cat,
              confidence = calculate_dictionary_confidence skill_term text_lower,
              skill_context = extract_context t skill_term,
              aliases = None, proficiency_level = None\<rparr>)
        (filter (\<lambda>(skill_term, _). str_in skill_term text_lower) lookup))"

definition extract_skills_dictionary :: "string \<Rightarrow> ExtractedSkill list" where
  "extract_skills_dictionary t = extract_skills_dictionary_from skill_lookup t"

text \<open>
  The dictionary confidence in closed form: a base, a bonus for each occurrence of the term
  after the first, and a bonus when the term stands in the 200 characters that start at the
  first occurrence of a section keyword. \<open>spec_dictionary_confidence\<close> has the bonus of the
  specification (0.05 for each further occurrence), \<open>closed_dictionary_confidence\<close> takes
  the bonus as a parameter.
\<close>

definition in_section_window :: "string \<Rightarrow> string \<Rightarrow> bool" where
  "in_section_window skill_term t =
     list_ex (\<lambda>sec. str_in sec t
                \<and> str_in skill_term (slice t (find_sub t sec) (find_sub t sec + 200)))
       skill_sections"

definition closed_dictionary_confidence :: "real \<Rightarrow> string \<Rightarrow> string \<Rightarrow> real" where
  "closed_dictionary_confidence per_occurrence skill_term t =
     min 1.0
       (0.80 + min 0.20 (per_occurrence * real (count_sub t (lower skill_term) - 1))
        + (if in_section_window skill_term t then 0.10 else 0))"

definition spec_dictionary_confidence :: "string \<Rightarrow> string \<Rightarrow> real" where
  "spec_dictionary_confidence skill_term t = closed_dictionary_confidence 0.05 skill_term t"

text \<open>
  The assignments that build the reverse lookup, in order: one for each skill and one for
  each of its aliases. \<open>matching P\<close> keeps those whose key satisfies \<open>P\<close>.
\<close>

definition insertions ::
  "(string \<times> (string \<times> string list) list) list \<Rightarrow> (string \<times> string \<times> string) list" where
  "insertions db =
     concat (map (\<lambda>(cat, sks).
        concat (map (\<lambda>(skill, als). map (\<lambda>a. (lower a, skill, cat)) (skill # als)) sks)) db)"

definition put ::
  "string \<times> string \<times> string \<Rightarrow> (string \<times> string \<times> string) list
   \<Rightarrow> (string \<times> string \<times> string) list" where
  "put e = AList.update (fst e) (snd e)"

definition matching ::
  "(string \<Rightarrow> bool) \<Rightarrow> (string \<times> (string \<times> string list) list) list
   \<Rightarrow> (string \<times> string \<times> string) list" where
  "matching P db =
     concat (map (\<lambda>(cat, sks).
        concat (map (\<lambda>(skill, als).
          map (\<lambda>k. (k, skill, cat)) (filter P (map lower (skill # als)))) sks)) db)"

section \<open>Facts about strings\<close>

lemma startswith_prefix: "startswith t sub = prefix sub t"
  by (induction t sub rule: startswith.induct) auto

lemma str_in_sublist: "str_in sub t = sublist sub t"
  by (induction t) (auto simp: startswith_prefix sublist_Cons_right)

lemma str_in_trans: "str_in a b \<Longrightarrow> str_in b c \<Longrightarrow> str_in a c"
  unfolding str_in_sublist by (rule sublist_order.order.trans)

section \<open>Urgency\<close>

lemma immediately_has_immediate: "str_in ''immediately'' t \<Longrightarrow> str_in ''immediate'' t"
proof -
  have "str_in ''immediate'' ''immediately''" by simp
  then show "str_in ''immediately'' t \<Longrightarrow> str_in ''immediate'' t"
    by (rule str_in_trans)
qed

lemma any_in_Cons: "any_in (k # ks) t = (str_in k t \<or> any_in ks t)"
  by (simp add: any_in_def)

lemma any_in_Nil: "any_in [] t = False"
  by (simp add: any_in_def)

text \<open>
  C9 (as stated): the specification's rule gives "low" to every text without its seven
  phrases. The code also counts \<open>soon\<close> as a "medium" phrase: the text \<open>soon\<close> has none of
  the seven phrases and is not "low".
\<close>

theorem C9_counterexample:
  "\<not> any_in [''urgent'', ''immediate'', ''asap'', ''critical'', ''fast-paced'', ''quickly'',
       ''rapid''] (lower ''soon'')
   \<and> determine_urgency ''soon'' = ''medium''
   \<and> determine_urgency ''soon'' \<noteq> spec_urgency ''soon''"
  by (simp add: determine_urgency_def spec_urgency_def lower_def lower_char_def any_in_def
      urgent_keywords_def high_keywords_def)

text \<open>
  C9 (amended): the urgency of a job description is "high" if its lowercased text contains
  one of urgent, immediate, asap, critical; otherwise "medium" if it contains one of
  fast-paced, quickly, soon, rapid; otherwise "low". (The code's fifth "high" keyword,
  immediately, adds nothing: a text with it contains immediate.)
\<close>

theorem C9_determine_urgency:
  "determine_urgency t =
     (if any_in [''urgent'', ''immediate'', ''asap'', ''critical''] (lower t) then ''high''
      else if any_in [''fast-paced'', ''quickly'', ''soon'', ''rapid''] (lower t) then ''medium''
      else ''low'')"
proof -
  have "any_in urgent_keywords s = any_in [''urgent'', ''immediate'', ''asap'', ''critical''] s"
    for s
    unfolding urgent_keywords_def any_in_Cons any_in_Nil
    using immediately_has_immediate [of s] by blast
  then show ?thesis
    by (simp add: determine_urgency_def high_keywords_def)
qed

theorem C9_determine_urgency_witness:
  "determine_urgency ''We need someone IMMEDIATELY'' = ''high''
   \<and> determine_urgency ''Join our Fast-Paced team soon'' = ''medium''
   \<and> determine_urgency ''A calm role'' = ''low''"
  using C9_determine_urgency [of "''We need someone IMMEDIATELY''"]
    C9_determine_urgency [of "''Join our Fast-Paced team soon''"]
    C9_determine_urgency [of "''A calm role''"]
  by (simp add: lower_def lower_char_def any_in_def)

section \<open>Overall similarity\<close>

text \<open>
  C4: the matcher's overall similarity is 0.40 times the skill component plus 0.35 times
  the embedding similarity plus 0.25 times the text similarity, capped at 1; the skill
  component is the mean of coverage and weighted coverage capped at 1, and 0 when no skill
  is required.
\<close>

theorem C4_overall_similarity:
  "calculate_overall_similarity matches n e t =
     min (0.40 * spec_skill_component matches n + 0.35 * e + 0.25 * t) 1"
  by (simp add: calculate_overall_similarity_def spec_skill_component_def spec_coverage_def
      spec_weighted_coverage_def Let_def min.commute mult.commute)

theorem C4_overall_similarity_witness:
  "calculate_overall_similarity
     [\<lparr>skill_name = ''python'', resume_skill = Some ''Python'', jd_skill = ''python'',
       match_type = ''exact'', match_confidence = 1.0, semantic_similarity = None\<rparr>,
      \<lparr>skill_name = ''react'', resume_skill = Some ''reactjs'', jd_skill = ''react'',
       match_type = ''fuzzy'', match_confidence = 0.9, semantic_similarity = None\<rparr>]
     2 0.5 0.4 = 0.665
   \<and> calculate_overall_similarity [] 0 0.5 0.4 = 0.275"
  using C4_overall_similarity [of
      "[\<lparr>skill_name = ''python'', resume_skill = Some ''Python'', jd_skill = ''python'',
         match_type = ''exact'', match_confidence = 1.0, semantic_similarity = None\<rparr>,
        \<lparr>skill_name = ''react'', resume_skill = Some ''reactjs'', jd_skill = ''react'',
         match_type = ''fuzzy'', match_confidence = 0.9, semantic_similarity = None\<rparr>]"
      2 "0.5" "0.4"]
    C4_overall_similarity [of "[]" 0 "0.5" "0.4"]
  by (simp add: spec_skill_component_def spec_coverage_def spec_weighted_coverage_def)

section \<open>Hard skills\<close>

lemma any_in_critical: "any_in critical_keywords (lower s) = spec_is_critical s"
  by (simp add: spec_is_critical_def any_in_def critical_keywords_def)

lemma critical_filter: "identify_critical_skills required = filter spec_is_critical required"
  by (simp add: identify_critical_skills_def any_in_critical)

lemma length_filter_map: "length (filter P (map f xs)) = length (filter (\<lambda>x. P (f x)) xs)"
  by (induction xs) simp_all

text \<open>
  C5: the hard-skills component is 0.5 when the JD requires no skill, and otherwise
  max(0, min(1, base + 0.2 diversity + 0.1 high / required - 0.3 missing critical /
  critical)), with base the share of required skills matched with confidence at least
  0.70, high the matches with confidence at least 0.90, a skill critical when its
  (lowercased) text contains required, must, essential or mandatory, and no penalty when
  no skill is critical.
\<close>

theorem C5_hard_skills:
  "calculate_hard_skills_score sp sm jd =
     spec_hard_skills (or_empty (required_skills jd))
       (map match_confidence (skill_matches sm)) (missing_skills sm)
       (skill_diversity_score sp)"
proof (cases "or_empty (required_skills jd) = []")
  case True
  then show ?thesis
    by (simp add: calculate_hard_skills_score_def spec_hard_skills_def)
next
  case False
  then show ?thesis
    unfolding calculate_hard_skills_score_def spec_hard_skills_def critical_filter
      length_filter_map Let_def
    by (simp add: mult.commute)
qed

section \<open>Suitability\<close>

text \<open>
  C6: the suitability is the threshold verdict (High from the high threshold, Medium from
  the medium threshold, else Low) followed by the three adjustments in order: the
  downgrade by one level when more skills are missing than matched, the upgrade of Low to
  Medium for an exceptional component when the overall score is at least 50, and the cap of
  High to Medium when the overall confidence is below 60.
\<close>

theorem C6_suitability:
  "determine_suitability engine overall ds =
     verdict_name (spec_suitability (high_score engine) (medium_score engine) overall ds)"
  by (simp add: determine_suitability_def spec_suitability_def spec_confidence_cap_def
      spec_upgrade_def spec_downgrade_def spec_threshold_verdict_def verdict_name_def Let_def)

section \<open>The reverse lookup\<close>

lemma lower_char_lowercase:
  "lower_char (Char b0 b1 b2 b3 b4 True b6 b7) = Char b0 b1 b2 b3 b4 True b6 b7"
  by (simp add: lower_char_def)

lemma add_skill_put:
  "add_skill cat (skill, als) lk = fold put (map (\<lambda>a. (lower a, skill, cat)) (skill # als)) lk"
  by (simp add: add_skill_def put_def fold_map o_def)

lemma fold_add_skill:
  "fold (add_skill cat) sks lk =
     fold put
       (concat (map (\<lambda>(skill, als). map (\<lambda>a. (lower a, skill, cat)) (skill # als)) sks)) lk"
proof (induction sks arbitrary: lk)
  case Nil
  show ?case by simp
next
  case (Cons e sks)
  obtain skill als where e: "e = (skill, als)" by (cases e)
  show ?case
    unfolding e using Cons.IH
    by (simp only: fold_simps add_skill_put list.map concat.simps fold_append o_apply
        case_prod_conv)
qed

lemma load_fold:
  "fold (\<lambda>(cat, sks) lookup. fold (add_skill cat) sks lookup) db lk =
     fold put (insertions db) lk"
proof (induction db arbitrary: lk)
  case Nil
  show ?case by (simp add: insertions_def)
next
  case (Cons e db)
  obtain cat sks where e: "e = (cat, sks)" by (cases e)
  show ?case
    unfolding e using Cons.IH by (simp add: insertions_def fold_add_skill)
qed

lemma load_skill_lookup_insertions: "load_skill_lookup db = fold put (insertions db) []"
  by (simp add: load_skill_lookup_def load_fold)

text \<open>Filtering the table by a property of the key commutes with the assignments.\<close>

lemma filter_update:
  "filter (\<lambda>p. P (fst p)) (AList.update k v al) =
     (if P k then AList.update k v (filter (\<lambda>p. P (fst p)) al)
      else filter (\<lambda>p. P (fst p)) al)"
  by (induction al) auto

lemma filter_fold_put:
  "filter (\<lambda>p. P (fst p)) (fold put ins lk) =
     fold put (filter (\<lambda>p. P (fst p)) ins) (filter (\<lambda>p. P (fst p)) lk)"
  by (induction ins arbitrary: lk) (simp_all add: put_def filter_update)

lemma filter_keys:
  "filter (\<lambda>p. P (fst p)) (map (\<lambda>a. (lower a, skill, cat)) xs) =
     map (\<lambda>k. (k, skill, cat)) (filter P (map lower xs))"
  by (induction xs) auto

lemma filter_category:
  "filter (\<lambda>p. P (fst p))
     (concat (map (\<lambda>(skill, als). map (\<lambda>a. (lower a, skill, cat)) (skill # als)) sks)) =
   concat (map (\<lambda>(skill, als).
     map (\<lambda>k. (k, skill, cat)) (filter P (map lower (skill # als)))) sks)"
proof (induction sks)
  case Nil
  show ?case by simp
next
  case (Cons e sks)
  obtain skill als where e: "e = (skill, als)" by (cases e)
  show ?case
    unfolding e using Cons.IH by (simp add: filter_keys)
qed

lemma filter_insertions: "filter (\<lambda>p. P (fst p)) (insertions db) = matching P db"
proof (induction db)
  case Nil
  show ?case by (simp add: insertions_def matching_def)
next
  case (Cons e db)
  obtain cat sks where e: "e = (cat, sks)" by (cases e)
  show ?case
    using Cons.IH filter_category [of P cat sks]
    unfolding e insertions_def matching_def by simp
qed

lemma lookup_filter:
  "filter (\<lambda>p. str_in (fst p) t) skill_lookup =
     fold put (matching (\<lambda>k. str_in k t) skill_database) []"
  using filter_fold_put [of "\<lambda>k. str_in k t" "insertions skill_database" "[]"]
    filter_insertions [of "\<lambda>k. str_in k t" skill_database]
  by (simp add: skill_lookup_def load_skill_lookup_insertions)

section \<open>Dictionary closure\<close>

lemma matching_gitlab:
  "matching (\<lambda>k. str_in k ''gitlab'') skill_database =
     [(''gitlab'', ''gitlab'', ''cloud_platforms''), (''gitlab'', ''gitlab'', ''cloud_platforms''),
      (''git'', ''git'', ''devops_tools''), (''git'', ''git'', ''devops_tools''),
      (''gitlab'', ''git'', ''devops_tools'')]"
  by (simp add: matching_def skill_database_def lower_def lower_char_lowercase)

lemma lookup_gitlab:
  "filter (\<lambda>p. str_in (fst p) ''gitlab'') skill_lookup =
     [(''gitlab'', ''git'', ''devops_tools''), (''git'', ''git'', ''devops_tools'')]"
  unfolding lookup_filter matching_gitlab by (simp add: put_def)

lemma gitlab_listed:
  "(''gitlab'', [''gitlab'', ''gitlab ci'']) \<in> set (the (map_of skill_database ''cloud_platforms''))"
  by (simp add: skill_database_def)

text \<open>
  C7 at the text \<open>gitlab\<close>: the database lists the skill \<open>gitlab\<close> under
  \<open>cloud_platforms\<close>, and \<open>gitlab\<close> is also an alias of \<open>git\<close> under \<open>devops_tools\<close>, which
  is assigned later and replaces the entry of the key. Dictionary extraction on the text
  \<open>gitlab\<close> returns two skills, both \<open>git\<close> of category \<open>devops_tools\<close>, and none
  named \<open>gitlab\<close> of category \<open>cloud_platforms\<close>.
\<close>

theorem C7_gitlab:
  "extract_skills_dictionary ''gitlab'' =
     [\<lparr>name = ''git'', category = ''devops_tools'', confidence = 0.8,
       skill_context = ''gitlab'', aliases = None, proficiency_level = None\<rparr>,
      \<lparr>name = ''git'', category = ''devops_tools'', confidence = 0.8,
       skill_context = ''gitlab'', aliases = None, proficiency_level = None\<rparr>]"
proof -
  have l: "lower ''gitlab'' = ''gitlab''"
    by (simp add: lower_def lower_char_lowercase)
  have g: "lower ''git'' = ''git''"
    by (simp add: lower_def lower_char_lowercase)
  have c1: "calculate_dictionary_confidence ''gitlab'' ''gitlab'' = 0.8"
    by (simp add: calculate_dictionary_confidence_def l count_sub_def skill_sections_def)
  have c2: "calculate_dictionary_confidence ''git'' ''gitlab'' = 0.8"
    by (simp add: calculate_dictionary_confidence_def g count_sub_def skill_sections_def)
  have x1: "extract_context ''gitlab'' ''gitlab'' = ''gitlab''"
    by (simp add: extract_context_def l find_sub_def slice_def slice_index_def strip_def
        is_space_def)
  have x2: "extract_context ''gitlab'' ''git'' = ''gitlab''"
    by (simp add: extract_context_def l g find_sub_def slice_def slice_index_def strip_def
        is_space_def)
  show ?thesis
    unfolding extract_skills_dictionary_def extract_skills_dictionary_from_def Let_def l
      case_prod_unfold lookup_gitlab
    by (simp add: c1 c2 x1 x2)
qed

section \<open>Dictionary confidence\<close>

lemma section_boost_closed:
  "section_boost secs skill_term t b =
     (if list_ex (\<lambda>sec. str_in sec t
                    \<and> str_in skill_term (slice t (find_sub t sec) (find_sub t sec + 200))) secs
      then b + 0.1 else b)"
  by (induction secs) auto

text \<open>
  C8 (as stated): with the term twice in the text and no section keyword, the code gives
  0.9, and the rule with 0.05 for each further occurrence gives 0.85.
\<close>

theorem C8_counterexample:
  "calculate_dictionary_confidence ''python'' ''python python'' = 0.9
   \<and> spec_dictionary_confidence ''python'' ''python python'' = 0.85"
  by (simp add: calculate_dictionary_confidence_def spec_dictionary_confidence_def
      closed_dictionary_confidence_def in_section_window_def skill_sections_def count_sub_def
      lower_def lower_char_lowercase)

text \<open>
  C8 (amended): the dictionary confidence is 0.80, plus 0.10 for each occurrence of the
  term after the first (occurrences that do not overlap; this bonus is at most 0.20), plus
  0.10 if the term stands in the 200 characters that start at the first occurrence of one
  of the keywords skills, technologies, experience, projects; the sum is capped at 1.0.
\<close>

theorem C8_dictionary_confidence:
  "calculate_dictionary_confidence skill_term t = closed_dictionary_confidence 0.10 skill_term t"
proof -
  have bonus:
    "(if n > 1 then 0.8 + min (0.1 * (real n - 1)) 0.2 else 0.8) =
       0.80 + min 0.20 (0.10 * real (n - 1))" for n :: nat
    by (cases "n > 1") (auto simp: min_def of_nat_diff)
  show ?thesis
    unfolding calculate_dictionary_confidence_def closed_dictionary_confidence_def
      in_section_window_def Let_def section_boost_closed bonus
    by (simp add: min.commute)
qed

theorem C8_dictionary_confidence_witness:
  "calculate_dictionary_confidence ''python'' ''skills: python, sql. python and more python'' = 1
   \<and> calculate_dictionary_confidence ''sql'' ''python and sql'' = 0.8"
proof -
  have l: "lower ''python'' = ''python''" "lower ''sql'' = ''sql''"
    by (simp_all add: lower_def lower_char_lowercase)
  have n: "count_sub ''skills: python, sql. python and more python'' ''python'' = 3"
    "count_sub ''python and sql'' ''sql'' = 1"
    by (simp_all add: count_sub_def)
  have f: "find_sub ''skills: python, sql. python and more python'' ''skills'' = 0"
    by (simp add: find_sub_def)
  have s: "slice ''skills: python, sql. python and more python'' 0 200 =
      ''skills: python, sql. python and more python''"
    by (simp add: slice_def slice_index_def)
  have w: "in_section_window ''python'' ''skills: python, sql. python and more python''"
    by (simp add: in_section_window_def skill_sections_def f s)
  have w': "\<not> in_section_window ''sql'' ''python and sql''"
    by (simp add: in_section_window_def skill_sections_def)
  show ?thesis
    using C8_dictionary_confidence [of "''python''"
        "''skills: python, sql. python and more python''"]
      C8_dictionary_confidence [of "''sql''" "''python and sql''"]
    by (simp add: closed_dictionary_confidence_def l n w w')
qed

end
